theory Spec2Isabelle
  imports Main
begin

section \<open>The cloco API client (src/api-client.ts)\<close>

text \<open>
  \<open>ApiClient\<close> is a class of static methods over a callback-based HTTP transport
  (restify). Every method builds the options of a fresh restify client with
  \<open>getRestifyOptions\<close>, builds a path, hands one request to the client and returns a
  promise that the client's callback settles. The calls to \<open>Logger.log\<close> write to a
  diagnostics channel only and are left out.

  Strings are sequences of bytes: a JavaScript string is taken in its UTF-8 encoding,
  which is what \<open>new Buffer(s)\<close> holds.
\<close>

subsection \<open>JavaScript values and errors\<close>

text \<open>
  A value of TypeScript type \<open>any\<close>, as far as the client looks at it: the client only
  asks whether \<open>typeof v === "string"\<close>. Every other value (objects, numbers,
  \<open>undefined\<close>, ...) is \<open>JOther\<close>.
\<close>

datatype 'v js_any = JString string | JOther 'v

fun is_string :: "'v js_any \<Rightarrow> bool" where
  "is_string (JString s) = True"
| "is_string (JOther v) = False"

text \<open>
  Error values. \<open>TypeError\<close> is what the runtime throws when a property of
  \<open>undefined\<close> is read, \<open>SyntaxError\<close> is what \<open>JSON.parse\<close> throws; every other
  error value (those made by the transport among them) is \<open>OtherError\<close>.
\<close>

datatype 'x js_error = TypeError | SyntaxError | OtherError 'x

text \<open>
  A property that may be absent reads as \<open>undefined\<close> (\<open>None\<close>). In a template
  literal \<open>`${e}`\<close> an undefined value is written as the nine letters \<open>undefined\<close>.
\<close>

fun interpolate :: "string option \<Rightarrow> string" where
  "interpolate None = ''undefined''"
| "interpolate (Some s) = s"

subsection \<open>Base64 (Buffer.toString("base64"))\<close>

text \<open>
  Node's \<open>Buffer.toString("base64")\<close>: the standard alphabet of RFC 4648, three bytes
  to four characters, padded with \<open>=\<close>.
\<close>

definition b64_char :: "nat \<Rightarrow> char" where
  "b64_char n =
     (if n < 26 then char_of (65 + n)
      else if n < 52 then char_of (71 + n)
      else if n < 62 then char_of (n - 4)
      else if n = 62 then CHR ''+''
      else CHR ''/'')"

fun b64_bytes :: "nat list \<Rightarrow> string" where
  "b64_bytes [] = []"
| "b64_bytes [a] =
     [b64_char (a div 4), b64_char ((a mod 4) * 16), CHR ''='', CHR ''='']"
| "b64_bytes [a, b] =
     [b64_char (a div 4), b64_char ((a mod 4) * 16 + b div 16),
      b64_char ((b mod 16) * 4), CHR ''='']"
| "b64_bytes (a # b # c # rest) =
     [b64_char (a div 4), b64_char ((a mod 4) * 16 + b div 16),
      b64_char ((b mod 16) * 4 + c div 64), b64_char (c mod 64)] @ b64_bytes rest"

definition base64 :: "string \<Rightarrow> string" where
  "base64 s = b64_bytes (map of_char s)"

subsection \<open>Data model\<close>

text \<open>
  Modelled from the spec: the declarations of \<open>IOptions\<close>, \<open>Credentials\<close> and \<open>Tokens\<close>
  (src/types/ioptions.ts) are not among the sources. The spec's data model gives
  \<open>Options\<close> the fields \<open>url\<close>, \<open>subscription\<close>, \<open>application\<close>, \<open>environment\<close>,
  \<open>credentials\<close> (\<open>key\<close>, \<open>secret\<close>) and \<open>tokens\<close> (\<open>accessToken\<close>,
  \<open>refreshToken\<close>), and it speaks of options whose token or credentials are missing
  (its own example has no \<open>credentials\<close>). The project is compiled without
  \<open>strictNullChecks\<close> (tsconfig.json), so every property may be \<open>undefined\<close>:
  each field is an option, \<open>None\<close> for an absent property.
\<close>

record Credentials =
  key :: "string option"
  secret :: "string option"

record Tokens =
  accessToken :: "string option"
  refreshToken :: "string option"

record IOptions =
  url :: "string option"
  subscription :: "string option"
  application :: "string option"
  environment :: "string option"
  credentials :: "Credentials option"
  tokens :: "Tokens option"

text \<open>
  Modelled from the spec: the class \<open>TokenRequest\<close> (src/types/token-request.ts) is not
  among the sources. The spec gives it \<open>grant_type\<close> and \<open>refresh_token\<close>, the latter
  "present only for the refresh flow": a new \<open>TokenRequest\<close> has neither property set.
\<close>

record TokenRequest =
  grant_type :: "string option"
  refresh_token :: "string option"

definition new_TokenRequest :: TokenRequest where
  "new_TokenRequest = \<lparr>grant_type = None, refresh_token = None\<rparr>"

text \<open>
  \<open>restify.ClientOptions\<close> as the client fills it: \<open>url\<close>, \<open>version\<close> and \<open>headers\<close>,
  the headers an object whose properties are kept in the order of their assignment.
\<close>

record ClientOptions =
  client_url :: "string option"
  version :: string
  headers :: "(string \<times> string) list"

subsection \<open>getRestifyOptions\<close>

text \<open>
  Reading \<open>options.credentials.key\<close> when \<open>options.credentials\<close> is undefined, or
  \<open>options.tokens.accessToken\<close> when \<open>options.tokens\<close> is undefined, throws a
  \<open>TypeError\<close>: the result is \<open>Inl TypeError\<close>. The optional parameter
  \<open>credentialType\<close> is \<open>None\<close> when the caller leaves it out.
\<close>

definition getRestifyOptions :: "IOptions \<Rightarrow> string option \<Rightarrow> 'x js_error + ClientOptions" where
  "getRestifyOptions options credentialType =
     (if credentialType = Some ''basic'' then
        (case credentials options of
           None \<Rightarrow> Inl TypeError
         | Some c \<Rightarrow>
             Inr \<lparr>client_url = url options, version = ''*'',
                  headers = [(''authorization'',
                    ''Basic '' @ base64 (interpolate (key c) @ '':'' @ interpolate (secret c)))]\<rparr>)
      else
        (case tokens options of
           None \<Rightarrow> Inl TypeError
         | Some t \<Rightarrow>
             Inr \<lparr>client_url = url options, version = ''*'',
                  headers = [(''authorization'', ''Bearer '' @ interpolate (accessToken t))]\<rparr>))"

subsection \<open>Requests, callbacks and promises\<close>

text \<open>
  What a method hands to restify: which client it created (\<open>createJsonClient\<close> or
  \<open>createStringClient\<close>) with which options, and the call it made on that client
  (\<open>get\<close>, \<open>put\<close> or \<open>post\<close>) with its path and body.
\<close>

datatype encoding = JsonClient | StringClient

datatype http_method = GET | PUT | POST

datatype 'v payload = NoBody | TokenBody TokenRequest | AnyBody "'v js_any"

record 'v request =
  client :: encoding
  client_options :: ClientOptions
  http_method :: http_method
  path :: string
  payload :: "'v payload"

text \<open>
  What the callback given to restify does when it is called with \<open>(err, req, res, obj)\<close>:
  it calls \<open>resolve\<close>, calls \<open>reject\<close>, or an exception leaves it.
\<close>

datatype ('x, 'v) settlement =
  Resolve "'v js_any"
| Reject "'x js_error"
| Throw "'x js_error"

text \<open>
  The state the promise returned by a method ends in. The body of an \<open>async\<close> method
  runs up to the call on the client; an exception there rejects the promise and no
  request is made. restify calls the callback later, from the handler of the response:
  an exception that leaves the callback is not caught by the promise, which then is
  never settled (\<open>Unsettled\<close>, with the uncaught exception).
\<close>

datatype ('x, 'v) promise =
  Fulfilled "'v js_any"
| Rejected "'x js_error"
| Unsettled "'x js_error"

text \<open>
  The transport answers a request by calling the callback once with an error
  (\<open>None\<close> for \<open>null\<close>) and the decoded body.
\<close>

type_synonym ('x, 'v) transport = "'v request \<Rightarrow> 'x js_error option \<times> 'v js_any"

definition settle :: "('x, 'v) transport \<Rightarrow> 'x js_error + 'v request \<Rightarrow>
    ('x js_error option \<Rightarrow> 'v js_any \<Rightarrow> ('x, 'v) settlement) \<Rightarrow> ('x, 'v) promise" where
  "settle transport call callback =
     (case call of
        Inl e \<Rightarrow> Rejected e
      | Inr r \<Rightarrow>
          (case transport r of
             (err, obj) \<Rightarrow>
               (case callback err obj of
                  Resolve v \<Rightarrow> Fulfilled v
                | Reject e \<Rightarrow> Rejected e
                | Throw e \<Rightarrow> Unsettled e)))"

subsection \<open>getApplication\<close>

definition getApplication_path :: "IOptions \<Rightarrow> string" where
  "getApplication_path options =
     ''/'' @ interpolate (subscription options) @ ''/applications/'' @
     interpolate (application options)"

definition getApplication_request :: "IOptions \<Rightarrow> 'x js_error + 'v request" where
  "getApplication_request options =
     (case getRestifyOptions options None of
        Inl e \<Rightarrow> Inl e
      | Inr ro \<Rightarrow>
          Inr \<lparr>client = JsonClient, client_options = ro, http_method = GET,
               path = getApplication_path options, payload = NoBody\<rparr>)"

definition getApplication_callback ::
    "'x js_error option \<Rightarrow> 'v js_any \<Rightarrow> ('x, 'v) settlement" where
  "getApplication_callback err obj =
     (case err of Some e \<Rightarrow> Reject e | None \<Rightarrow> Resolve obj)"

definition getApplication :: "('x, 'v) transport \<Rightarrow> IOptions \<Rightarrow> ('x, 'v) promise" where
  "getApplication transport options =
     settle transport (getApplication_request options) getApplication_callback"

subsection \<open>getConfigObject\<close>

definition getConfigObject_path :: "IOptions \<Rightarrow> string \<Rightarrow> string" where
  "getConfigObject_path options objectId =
     ''/'' @ interpolate (subscription options) @ ''/configuration/'' @
     interpolate (application options) @ ''/'' @ objectId @ ''/'' @
     interpolate (environment options)"

definition getConfigObject_request :: "IOptions \<Rightarrow> string \<Rightarrow> 'x js_error + 'v request" where
  "getConfigObject_request options objectId =
     (case getRestifyOptions options None of
        Inl e \<Rightarrow> Inl e
      | Inr ro \<Rightarrow>
          Inr \<lparr>client = JsonClient, client_options = ro, http_method = GET,
               path = getConfigObject_path options objectId, payload = NoBody\<rparr>)"

definition getConfigObject_callback ::
    "'x js_error option \<Rightarrow> 'v js_any \<Rightarrow> ('x, 'v) settlement" where
  "getConfigObject_callback err obj =
     (case err of Some e \<Rightarrow> Reject e | None \<Rightarrow> Resolve obj)"

definition getConfigObject ::
    "('x, 'v) transport \<Rightarrow> IOptions \<Rightarrow> string \<Rightarrow> ('x, 'v) promise" where
  "getConfigObject transport options objectId =
     settle transport (getConfigObject_request options objectId) getConfigObject_callback"

subsection \<open>putConfigObject\<close>

text \<open>
  \<open>JSON.parse\<close> belongs to the runtime and is a parameter: it takes any value (a
  non-string is first turned into a string) and returns the parsed value, or throws
  a \<open>SyntaxError\<close> (\<open>None\<close>).
\<close>

type_synonym 'v json_parse = "'v js_any \<Rightarrow> 'v js_any option"

definition putConfigObject_parseResponse :: "'v js_any \<Rightarrow> bool" where
  "putConfigObject_parseResponse body = is_string body"

definition putConfigObject_path :: "IOptions \<Rightarrow> string \<Rightarrow> string" where
  "putConfigObject_path options objectId =
     ''/'' @ interpolate (subscription options) @ ''/configuration/'' @
     interpolate (application options) @ ''/'' @ objectId @ ''/'' @
     interpolate (environment options)"

definition putConfigObject_request ::
    "IOptions \<Rightarrow> string \<Rightarrow> 'v js_any \<Rightarrow> 'x js_error + 'v request" where
  "putConfigObject_request options objectId body =
     (case getRestifyOptions options None of
        Inl e \<Rightarrow> Inl e
      | Inr ro \<Rightarrow>
          Inr \<lparr>client = (if is_string body then StringClient else JsonClient),
               client_options = ro, http_method = PUT,
               path = putConfigObject_path options objectId, payload = AnyBody body\<rparr>)"

definition putConfigObject_callback ::
    "'v json_parse \<Rightarrow> bool \<Rightarrow> 'x js_error option \<Rightarrow> 'v js_any \<Rightarrow> ('x, 'v) settlement" where
  "putConfigObject_callback JSON_parse parseResponse err obj =
     (case err of
        Some e \<Rightarrow> Reject e
      | None \<Rightarrow>
          (if parseResponse then
             (case JSON_parse obj of None \<Rightarrow> Throw SyntaxError | Some v \<Rightarrow> Resolve v)
           else Resolve obj))"

definition putConfigObject ::
    "'v json_parse \<Rightarrow> ('x, 'v) transport \<Rightarrow> IOptions \<Rightarrow> string \<Rightarrow> 'v js_any \<Rightarrow>
     ('x, 'v) promise" where
  "putConfigObject JSON_parse transport options objectId body =
     settle transport (putConfigObject_request options objectId body)
       (putConfigObject_callback JSON_parse (putConfigObject_parseResponse body))"

subsection \<open>getAccessTokenFromRefreshToken\<close>

text \<open>
  \<open>getRestifyOptions\<close> runs first; once it has returned, \<open>options.tokens\<close> is defined
  and \<open>options.tokens.refreshToken\<close> is read without an exception.
\<close>

definition getAccessTokenFromRefreshToken_request :: "IOptions \<Rightarrow> 'x js_error + 'v request" where
  "getAccessTokenFromRefreshToken_request options =
     (case getRestifyOptions options None of
        Inl e \<Rightarrow> Inl e
      | Inr ro \<Rightarrow>
          (case tokens options of
             None \<Rightarrow> Inl TypeError
           | Some t \<Rightarrow>
               Inr \<lparr>client = JsonClient, client_options = ro, http_method = POST,
                    path = ''/oauth/token'',
                    payload = TokenBody (new_TokenRequest
                      \<lparr>grant_type := Some ''refresh_token'',
                       refresh_token := refreshToken t\<rparr>)\<rparr>))"

definition getAccessTokenFromRefreshToken_callback ::
    "'x js_error option \<Rightarrow> 'v js_any \<Rightarrow> ('x, 'v) settlement" where
  "getAccessTokenFromRefreshToken_callback err obj =
     (case err of Some e \<Rightarrow> Reject e | None \<Rightarrow> Resolve obj)"

definition getAccessTokenFromRefreshToken ::
    "('x, 'v) transport \<Rightarrow> IOptions \<Rightarrow> ('x, 'v) promise" where
  "getAccessTokenFromRefreshToken transport options =
     settle transport (getAccessTokenFromRefreshToken_request options)
       getAccessTokenFromRefreshToken_callback"

subsection \<open>getAccessTokenFromClientCredentials\<close>

definition getAccessTokenFromClientCredentials_request ::
    "IOptions \<Rightarrow> 'x js_error + 'v request" where
  "getAccessTokenFromClientCredentials_request options =
     (case getRestifyOptions options (Some ''basic'') of
        Inl e \<Rightarrow> Inl e
      | Inr ro \<Rightarrow>
          Inr \<lparr>client = JsonClient, client_options = ro, http_method = POST,
               path = ''/oauth/token'',
               payload = TokenBody (new_TokenRequest
                 \<lparr>grant_type := Some ''client_credentials''\<rparr>)\<rparr>)"

definition getAccessTokenFromClientCredentials_callback ::
    "'x js_error option \<Rightarrow> 'v js_any \<Rightarrow> ('x, 'v) settlement" where
  "getAccessTokenFromClientCredentials_callback err obj =
     (case err of Some e \<Rightarrow> Reject e | None \<Rightarrow> Resolve obj)"

definition getAccessTokenFromClientCredentials ::
    "('x, 'v) transport \<Rightarrow> IOptions \<Rightarrow> ('x, 'v) promise" where
  "getAccessTokenFromClientCredentials transport options =
     settle transport (getAccessTokenFromClientCredentials_request options)
       getAccessTokenFromClientCredentials_callback"

subsection \<open>The same methods on a store of objects\<close>

text \<open>
  To follow the assignments of the methods, the objects are kept in a store: an object
  is a list of properties in the order of their creation, a value is \<open>undefined\<close>, a
  string or a reference to an object of the store, and the address of an object is its
  index. \<open>options\<close> is then a reference to an object whose properties \<open>credentials\<close>
  and \<open>tokens\<close> refer to further objects. A computation takes the store and returns
  a value or a thrown error, and the store it leaves.
\<close>

datatype js_val = Undefined | Str string | Ref nat

type_synonym js_object = "(string \<times> js_val) list"

type_synonym store = "js_object list"

type_synonym 'a js = "store \<Rightarrow> (unit js_error + 'a) \<times> store"

definition js_return :: "'a \<Rightarrow> 'a js" where
  "js_return x s = (Inr x, s)"

definition js_bind :: "'a js \<Rightarrow> ('a \<Rightarrow> 'b js) \<Rightarrow> 'b js" where
  "js_bind m f s = (case m s of (Inl e, s') \<Rightarrow> (Inl e, s') | (Inr x, s') \<Rightarrow> f x s')"

definition property :: "js_object \<Rightarrow> string \<Rightarrow> js_val" where
  "property ob p = (case map_of ob p of None \<Rightarrow> Undefined | Some w \<Rightarrow> w)"

text \<open>
  \<open>v.p\<close>: a \<open>TypeError\<close> when \<open>v\<close> is undefined; \<open>undefined\<close> when \<open>v\<close> is a string
  (none of the names the client reads is a property of a string) or an object
  without the property. A reference outside the store does not occur and is treated
  as undefined.
\<close>

definition get_property :: "js_val \<Rightarrow> string \<Rightarrow> js_val js" where
  "get_property v p s =
     (case v of
        Undefined \<Rightarrow> (Inl TypeError, s)
      | Str x \<Rightarrow> (Inr Undefined, s)
      | Ref a \<Rightarrow> (if a < length s then (Inr (property (s ! a) p), s) else (Inl TypeError, s)))"

text \<open>An object literal, or \<open>new\<close>: the object is added to the store.\<close>

definition new_object :: "js_object \<Rightarrow> nat js" where
  "new_object ob s = (Inr (length s), s @ [ob])"

fun assign :: "string \<Rightarrow> js_val \<Rightarrow> js_object \<Rightarrow> js_object" where
  "assign p v [] = [(p, v)]"
| "assign p v ((q, w) # ob) = (if q = p then (p, v) # ob else (q, w) # assign p v ob)"

text \<open>\<open>a.p = v\<close> on the object at address \<open>a\<close>.\<close>

definition set_property :: "nat \<Rightarrow> string \<Rightarrow> js_val \<Rightarrow> unit js" where
  "set_property a p v s = (Inr (), s[a := assign p v (s ! a)])"

text \<open>A value in a template literal.\<close>

fun template :: "js_val \<Rightarrow> string" where
  "template Undefined = ''undefined''"
| "template (Str x) = x"
| "template (Ref a) = ''[object Object]''"

definition getRestifyOptions_store :: "js_val \<Rightarrow> string option \<Rightarrow> nat js" where
  "getRestifyOptions_store options credentialType =
     js_bind (get_property options ''url'') (\<lambda>u.
     js_bind (new_object [(''url'', u), (''version'', Str ''*'')]) (\<lambda>restifyOptions.
     js_bind (new_object []) (\<lambda>headers.
     js_bind
       (if credentialType = Some ''basic'' then
          js_bind (get_property options ''credentials'') (\<lambda>c.
          js_bind (get_property c ''key'') (\<lambda>k.
          js_bind (get_property options ''credentials'') (\<lambda>c'.
          js_bind (get_property c' ''secret'') (\<lambda>sec.
          set_property headers ''authorization''
            (Str (''Basic '' @ base64 (template k @ '':'' @ template sec)))))))
        else
          js_bind (get_property options ''tokens'') (\<lambda>t.
          js_bind (get_property t ''accessToken'') (\<lambda>a.
          set_property headers ''authorization'' (Str (''Bearer '' @ template a))))) (\<lambda>_.
     js_bind (set_property restifyOptions ''headers'' (Ref headers)) (\<lambda>_.
     js_return restifyOptions)))))"

text \<open>
  The request as the method leaves it in the store: the client options and a token
  request are objects of the store.
\<close>

datatype store_body = SNoBody | STokenRequest nat | SAny js_val

record store_request =
  sr_client :: encoding
  sr_options :: nat
  sr_method :: http_method
  sr_path :: string
  sr_body :: store_body

definition getApplication_store :: "js_val \<Rightarrow> store_request js" where
  "getApplication_store options =
     js_bind (getRestifyOptions_store options None) (\<lambda>ro.
     js_bind (get_property options ''subscription'') (\<lambda>sub.
     js_bind (get_property options ''application'') (\<lambda>app.
     js_return \<lparr>sr_client = JsonClient, sr_options = ro, sr_method = GET,
       sr_path = ''/'' @ template sub @ ''/applications/'' @ template app,
       sr_body = SNoBody\<rparr>)))"

definition getConfigObject_store :: "js_val \<Rightarrow> string \<Rightarrow> store_request js" where
  "getConfigObject_store options objectId =
     js_bind (getRestifyOptions_store options None) (\<lambda>ro.
     js_bind (get_property options ''subscription'') (\<lambda>sub.
     js_bind (get_property options ''application'') (\<lambda>app.
     js_bind (get_property options ''environment'') (\<lambda>env.
     js_return \<lparr>sr_client = JsonClient, sr_options = ro, sr_method = GET,
       sr_path = ''/'' @ template sub @ ''/configuration/'' @ template app @ ''/'' @
         objectId @ ''/'' @ template env,
       sr_body = SNoBody\<rparr>))))"

definition putConfigObject_store :: "js_val \<Rightarrow> string \<Rightarrow> js_val \<Rightarrow> store_request js" where
  "putConfigObject_store options objectId body =
     js_bind (getRestifyOptions_store options None) (\<lambda>ro.
     js_bind (get_property options ''subscription'') (\<lambda>sub.
     js_bind (get_property options ''application'') (\<lambda>app.
     js_bind (get_property options ''environment'') (\<lambda>env.
     js_return
       \<lparr>sr_client = (case body of Str x \<Rightarrow> StringClient | _ \<Rightarrow> JsonClient),
        sr_options = ro, sr_method = PUT,
        sr_path = ''/'' @ template sub @ ''/configuration/'' @ template app @ ''/'' @
          objectId @ ''/'' @ template env,
        sr_body = SAny body\<rparr>))))"

definition getAccessTokenFromRefreshToken_store :: "js_val \<Rightarrow> store_request js" where
  "getAccessTokenFromRefreshToken_store options =
     js_bind (getRestifyOptions_store options None) (\<lambda>ro.
     js_bind (new_object []) (\<lambda>body.
     js_bind (set_property body ''grant_type'' (Str ''refresh_token'')) (\<lambda>_.
     js_bind (get_property options ''tokens'') (\<lambda>t.
     js_bind (get_property t ''refreshToken'') (\<lambda>rt.
     js_bind (set_property body ''refresh_token'' rt) (\<lambda>_.
     js_return \<lparr>sr_client = JsonClient, sr_options = ro, sr_method = POST,
       sr_path = ''/oauth/token'', sr_body = STokenRequest body\<rparr>))))))"

definition getAccessTokenFromClientCredentials_store :: "js_val \<Rightarrow> store_request js" where
  "getAccessTokenFromClientCredentials_store options =
     js_bind (getRestifyOptions_store options (Some ''basic'')) (\<lambda>ro.
     js_bind (new_object []) (\<lambda>body.
     js_bind (set_property body ''grant_type'' (Str ''client_credentials'')) (\<lambda>_.
     js_return \<lparr>sr_client = JsonClient, sr_options = ro, sr_method = POST,
       sr_path = ''/oauth/token'', sr_body = STokenRequest body\<rparr>)))"

subsection \<open>From the store back to values\<close>

text \<open>
  The options, client options and token request that the objects of a store stand
  for, and the request a method has left there. \<open>well_typed\<close> says that the object
  at an address has the shape of \<open>IOptions\<close>: its strings are strings or undefined,
  its \<open>credentials\<close> and \<open>tokens\<close> are undefined or objects of the store of
  the shape of \<open>Credentials\<close> and \<open>Tokens\<close>.
\<close>

fun string_of :: "js_val \<Rightarrow> string option" where
  "string_of Undefined = None"
| "string_of (Str x) = Some x"
| "string_of (Ref a) = None"

fun is_string_or_undefined :: "js_val \<Rightarrow> bool" where
  "is_string_or_undefined (Ref a) = False"
| "is_string_or_undefined v = True"

definition Credentials_at :: "store \<Rightarrow> nat \<Rightarrow> Credentials" where
  "Credentials_at s c =
     \<lparr>key = string_of (property (s ! c) ''key''),
      secret = string_of (property (s ! c) ''secret'')\<rparr>"

definition Tokens_at :: "store \<Rightarrow> nat \<Rightarrow> Tokens" where
  "Tokens_at s t =
     \<lparr>accessToken = string_of (property (s ! t) ''accessToken''),
      refreshToken = string_of (property (s ! t) ''refreshToken'')\<rparr>"

definition IOptions_at :: "store \<Rightarrow> nat \<Rightarrow> IOptions" where
  "IOptions_at s a =
     \<lparr>url = string_of (property (s ! a) ''url''),
      subscription = string_of (property (s ! a) ''subscription''),
      application = string_of (property (s ! a) ''application''),
      environment = string_of (property (s ! a) ''environment''),
      credentials =
        (case property (s ! a) ''credentials'' of
           Ref c \<Rightarrow> Some (Credentials_at s c) | _ \<Rightarrow> None),
      tokens =
        (case property (s ! a) ''tokens'' of
           Ref t \<Rightarrow> Some (Tokens_at s t) | _ \<Rightarrow> None)\<rparr>"

definition well_typed :: "store \<Rightarrow> nat \<Rightarrow> bool" where
  "well_typed s a =
     (a < length s \<and>
      is_string_or_undefined (property (s ! a) ''url'') \<and>
      is_string_or_undefined (property (s ! a) ''subscription'') \<and>
      is_string_or_undefined (property (s ! a) ''application'') \<and>
      is_string_or_undefined (property (s ! a) ''environment'') \<and>
      (case property (s ! a) ''credentials'' of
         Undefined \<Rightarrow> True
       | Str x \<Rightarrow> False
       | Ref c \<Rightarrow> c < length s \<and>
           is_string_or_undefined (property (s ! c) ''key'') \<and>
           is_string_or_undefined (property (s ! c) ''secret'')) \<and>
      (case property (s ! a) ''tokens'' of
         Undefined \<Rightarrow> True
       | Str x \<Rightarrow> False
       | Ref t \<Rightarrow> t < length s \<and>
           is_string_or_undefined (property (s ! t) ''accessToken'') \<and>
           is_string_or_undefined (property (s ! t) ''refreshToken'')))"

definition ClientOptions_at :: "store \<Rightarrow> nat \<Rightarrow> ClientOptions" where
  "ClientOptions_at s a =
     \<lparr>client_url = string_of (property (s ! a) ''url''),
      version = template (property (s ! a) ''version''),
      headers =
        (case property (s ! a) ''headers'' of
           Ref h \<Rightarrow> map (\<lambda>(n, v). (n, template v)) (s ! h) | _ \<Rightarrow> [])\<rparr>"

definition TokenRequest_at :: "store \<Rightarrow> nat \<Rightarrow> TokenRequest" where
  "TokenRequest_at s b =
     \<lparr>grant_type = string_of (property (s ! b) ''grant_type''),
      refresh_token = string_of (property (s ! b) ''refresh_token'')\<rparr>"

fun any_of :: "js_val \<Rightarrow> js_val js_any" where
  "any_of (Str x) = JString x"
| "any_of v = JOther v"

definition request_at :: "store \<Rightarrow> store_request \<Rightarrow> js_val request" where
  "request_at s r =
     \<lparr>client = sr_client r, client_options = ClientOptions_at s (sr_options r),
      http_method = sr_method r, path = sr_path r,
      payload =
        (case sr_body r of
           SNoBody \<Rightarrow> NoBody
         | STokenRequest b \<Rightarrow> TokenBody (TokenRequest_at s b)
         | SAny v \<Rightarrow> AnyBody (any_of v))\<rparr>"

definition result_at ::
    "(unit js_error + store_request) \<times> store \<Rightarrow> unit js_error + js_val request" where
  "result_at rs = (case rs of (Inl e, s) \<Rightarrow> Inl e | (Inr r, s) \<Rightarrow> Inr (request_at s r))"

text \<open>
  \<open>extends s0 s\<close>: every object of \<open>s0\<close> is in \<open>s\<close>, at its address and with the
  properties it had. \<open>frame s0 m Q\<close>: from a store that extends \<open>s0\<close> the computation
  \<open>m\<close> leaves a store that extends \<open>s0\<close>, and a value it returns satisfies \<open>Q\<close>.
\<close>

definition extends :: "store \<Rightarrow> store \<Rightarrow> bool" where
  "extends s0 s = (length s0 \<le> length s \<and> take (length s0) s = s0)"

definition frame :: "store \<Rightarrow> 'a js \<Rightarrow> ('a \<Rightarrow> bool) \<Rightarrow> bool" where
  "frame s0 m Q =
     (\<forall>s. extends s0 s \<longrightarrow> extends s0 (snd (m s)) \<and> (\<forall>x. fst (m s) = Inr x \<longrightarrow> Q x))"

subsection \<open>The response on the store\<close>

text \<open>
  The second half of a method: restify answers the request and the callback of the
  method runs. On the store the transport is a computation that returns the arguments
  \<open>err\<close> and \<open>obj\<close> of the callback; it may add objects, the decoded body among
  them, and when it throws at the call the promise is rejected, the call being made
  in the executor of the promise. \<open>JSON.parse\<close> is a computation too: the value it
  returns may be a new object. A callback is the computation of its statements, and
  an exception that leaves it leaves the promise unsettled. A method as a whole is
  its request, the transport and its callback, one after the other on the store.
\<close>

type_synonym store_transport = "store_request \<Rightarrow> (unit js_error option \<times> js_val) js"

type_synonym store_json_parse = "js_val \<Rightarrow> js_val js"

type_synonym store_callback =
  "unit js_error option \<Rightarrow> js_val \<Rightarrow> (unit, js_val) settlement js"

definition js_throw :: "unit js_error \<Rightarrow> 'a js" where
  "js_throw e s = (Inl e, s)"

definition getApplication_callback_store :: store_callback where
  "getApplication_callback_store err obj =
     (case err of
        Some e \<Rightarrow> js_return (Reject e)
      | None \<Rightarrow> js_return (Resolve (any_of obj)))"

definition getConfigObject_callback_store :: store_callback where
  "getConfigObject_callback_store err obj =
     (case err of
        Some e \<Rightarrow> js_return (Reject e)
      | None \<Rightarrow> js_return (Resolve (any_of obj)))"

definition putConfigObject_callback_store :: "store_json_parse \<Rightarrow> bool \<Rightarrow> store_callback" where
  "putConfigObject_callback_store JSON_parse parseResponse err obj =
     (case err of
        Some e \<Rightarrow> js_return (Reject e)
      | None \<Rightarrow>
          (if parseResponse then
             js_bind (JSON_parse obj) (\<lambda>parsed. js_return (Resolve (any_of parsed)))
           else js_return (Resolve (any_of obj))))"

definition getAccessTokenFromRefreshToken_callback_store :: store_callback where
  "getAccessTokenFromRefreshToken_callback_store err obj =
     (case err of
        Some e \<Rightarrow> js_return (Reject e)
      | None \<Rightarrow> js_return (Resolve (any_of obj)))"

definition getAccessTokenFromClientCredentials_callback_store :: store_callback where
  "getAccessTokenFromClientCredentials_callback_store err obj =
     (case err of
        Some e \<Rightarrow> js_return (Reject e)
      | None \<Rightarrow> js_return (Resolve (any_of obj)))"

definition settle_store ::
    "store_transport \<Rightarrow> store_request js \<Rightarrow> store_callback \<Rightarrow>
     store \<Rightarrow> (unit, js_val) promise \<times> store" where
  "settle_store transport call callback s =
     (case call s of
        (Inl e, s1) \<Rightarrow> (Rejected e, s1)
      | (Inr r, s1) \<Rightarrow>
          (case transport r s1 of
             (Inl e, s2) \<Rightarrow> (Rejected e, s2)
           | (Inr (err, obj), s2) \<Rightarrow>
               (case callback err obj s2 of
                  (Inl e, s3) \<Rightarrow> (Unsettled e, s3)
                | (Inr (Resolve v), s3) \<Rightarrow> (Fulfilled v, s3)
                | (Inr (Reject e), s3) \<Rightarrow> (Rejected e, s3)
                | (Inr (Throw e), s3) \<Rightarrow> (Unsettled e, s3))))"

definition getApplication_run ::
    "store_transport \<Rightarrow> js_val \<Rightarrow> store \<Rightarrow> (unit, js_val) promise \<times> store" where
  "getApplication_run transport options =
     settle_store transport (getApplication_store options) getApplication_callback_store"

definition getConfigObject_run ::
    "store_transport \<Rightarrow> js_val \<Rightarrow> string \<Rightarrow> store \<Rightarrow> (unit, js_val) promise \<times> store" where
  "getConfigObject_run transport options objectId =
     settle_store transport (getConfigObject_store options objectId)
       getConfigObject_callback_store"

definition putConfigObject_run ::
    "store_json_parse \<Rightarrow> store_transport \<Rightarrow> js_val \<Rightarrow> string \<Rightarrow> js_val \<Rightarrow>
     store \<Rightarrow> (unit, js_val) promise \<times> store" where
  "putConfigObject_run JSON_parse transport options objectId body =
     settle_store transport (putConfigObject_store options objectId body)
       (putConfigObject_callback_store JSON_parse
         (case body of Str x \<Rightarrow> True | _ \<Rightarrow> False))"

definition getAccessTokenFromRefreshToken_run ::
    "store_transport \<Rightarrow> js_val \<Rightarrow> store \<Rightarrow> (unit, js_val) promise \<times> store" where
  "getAccessTokenFromRefreshToken_run transport options =
     settle_store transport (getAccessTokenFromRefreshToken_store options)
       getAccessTokenFromRefreshToken_callback_store"

definition getAccessTokenFromClientCredentials_run ::
    "store_transport \<Rightarrow> js_val \<Rightarrow> store \<Rightarrow> (unit, js_val) promise \<times> store" where
  "getAccessTokenFromClientCredentials_run transport options =
     settle_store transport (getAccessTokenFromClientCredentials_store options)
       getAccessTokenFromClientCredentials_callback_store"

subsection \<open>Example values\<close>

text \<open>
  The options of the spec's end-to-end example (an access token and no credentials),
  the options of a client that has its credentials and no tokens yet, and options
  with both, as a value and as objects of a store.
\<close>

definition spec_example :: IOptions where
  "spec_example =
     \<lparr>url = Some ''https://api.example'', subscription = Some ''sub1'',
      application = Some ''app1'', environment = Some ''prod'', credentials = None,
      tokens = Some \<lparr>accessToken = Some ''AT1'', refreshToken = None\<rparr>\<rparr>"

definition login_example :: IOptions where
  "login_example =
     \<lparr>url = Some ''https://api.example'', subscription = Some ''sub1'',
      application = Some ''app1'', environment = Some ''prod'',
      credentials = Some \<lparr>key = Some ''key'', secret = Some ''secret''\<rparr>,
      tokens = None\<rparr>"

definition full_example :: IOptions where
  "full_example =
     \<lparr>url = Some ''https://api.example'', subscription = Some ''sub1'',
      application = Some ''app1'', environment = Some ''prod'',
      credentials = Some \<lparr>key = Some ''key'', secret = Some ''secret''\<rparr>,
      tokens = Some \<lparr>accessToken = Some ''AT1'', refreshToken = Some ''RT1''\<rparr>\<rparr>"

definition full_store :: store where
  "full_store =
     [[(''url'', Str ''https://api.example''), (''subscription'', Str ''sub1''),
       (''application'', Str ''app1''), (''environment'', Str ''prod''),
       (''credentials'', Ref 1), (''tokens'', Ref 2)],
      [(''key'', Str ''key''), (''secret'', Str ''secret'')],
      [(''accessToken'', Str ''AT1''), (''refreshToken'', Str ''RT1'')]]"

text \<open>
  A transport that answers every request with the same error and body, and a
  \<open>JSON.parse\<close> fixed on the one JSON text of an example: it returns the value of
  that text and throws on the other argument the example gives it, which is not JSON.
\<close>

definition respond :: "'x js_error option \<times> 'v js_any \<Rightarrow> ('x, 'v) transport" where
  "respond reply r = reply"

definition parses_only :: "string \<Rightarrow> 'v js_any \<Rightarrow> 'v json_parse" where
  "parses_only text v obj = (if obj = JString text then Some v else None)"

definition raw_blob_text :: string where
  \<open>raw_blob_text = ''{"id":"raw-blob","value":"hello=world"}''\<close>

definition raw_blob_object :: "(string \<times> string) list js_any" where
  "raw_blob_object = JOther [(''id'', ''raw-blob''), (''value'', ''hello=world'')]"

text \<open>
  On the store: a transport that answers every request with the same error and a
  new object as the body, the body of a token response, and a \<open>JSON.parse\<close> fixed
  on one text, of which it returns the value as a new object.
\<close>

definition respond_store :: "unit js_error option \<Rightarrow> js_object \<Rightarrow> store_transport" where
  "respond_store err ob r = js_bind (new_object ob) (\<lambda>a. js_return (err, Ref a))"

definition token_response :: js_object where
  "token_response =
     [(''access_token'', Str ''AT2''), (''refresh_token'', Str ''RT2''),
      (''token_type'', Str ''bearer'')]"

definition parses_only_store :: "string \<Rightarrow> js_object \<Rightarrow> store_json_parse" where
  "parses_only_store text ob v =
     (if v = Str text then js_bind (new_object ob) (\<lambda>a. js_return (Ref a))
      else js_throw SyntaxError)"


section \<open>Properties\<close>

subsection \<open>Base64\<close>

text \<open>
  The alphabet, the test vectors of RFC 4648 and the length of the encoding: four
  characters for every three bytes, the last group padded.
\<close>

lemma b64_alphabet:
  "map b64_char [0..<64] =
     ''ABCDEFGHIJKLMNOPQRSTUVWXYZabcdefghijklmnopqrstuvwxyz0123456789+/''"
  by code_simp

lemma base64_rfc4648_vectors:
  "base64 '''' = ''''"
  "base64 ''f'' = ''Zg==''"
  "base64 ''fo'' = ''Zm8=''"
  "base64 ''foo'' = ''Zm9v''"
  "base64 ''foob'' = ''Zm9vYg==''"
  "base64 ''fooba'' = ''Zm9vYmE=''"
  "base64 ''foobar'' = ''Zm9vYmFy''"
  by code_simp+

lemma length_b64_bytes: "length (b64_bytes bs) = 4 * ((length bs + 2) div 3)"
proof (induction bs rule: b64_bytes.induct)
  case (4 a b c rest)
  have "(length rest + 5) div 3 = Suc ((length rest + 2) div 3)"
    by presburger
  with 4 show ?case
    by (simp add: add.commute)
qed simp_all

subsection \<open>Header construction and settling\<close>

lemma getRestifyOptions_bearer:
  "tokens options = Some t \<Longrightarrow>
   getRestifyOptions options None =
     Inr \<lparr>client_url = url options, version = ''*'',
          headers = [(''authorization'', ''Bearer '' @ interpolate (accessToken t))]\<rparr>"
  by (simp add: getRestifyOptions_def)

lemma getRestifyOptions_basic:
  "credentials options = Some c \<Longrightarrow>
   getRestifyOptions options (Some ''basic'') =
     Inr \<lparr>client_url = url options, version = ''*'',
          headers = [(''authorization'',
            ''Basic '' @ base64 (interpolate (key c) @ '':'' @ interpolate (secret c)))]\<rparr>"
  by (simp add: getRestifyOptions_def)

lemma getRestifyOptions_no_tokens:
  "tokens options = None \<Longrightarrow> getRestifyOptions options None = Inl TypeError"
  by (simp add: getRestifyOptions_def)

lemma getRestifyOptions_no_credentials:
  "credentials options = None \<Longrightarrow> getRestifyOptions options (Some ''basic'') = Inl TypeError"
  by (simp add: getRestifyOptions_def)

lemma settle_issued:
  "call = Inr r \<Longrightarrow> transport r = (err, obj) \<Longrightarrow>
   settle transport call callback =
     (case callback err obj of
        Resolve v \<Rightarrow> Fulfilled v | Reject e \<Rightarrow> Rejected e | Throw e \<Rightarrow> Unsettled e)"
  by (simp add: settle_def)

lemma settle_thrown: "settle transport (Inl e) callback = Rejected e"
  by (simp add: settle_def)

lemma base64_key_secret: "base64 ''key:secret'' = ''a2V5OnNlY3JldA==''"
  by code_simp

lemma putConfigObject_request_bearer:
  "tokens options = Some t \<Longrightarrow>
   putConfigObject_request options objectId body =
     Inr \<lparr>client = (if is_string body then StringClient else JsonClient),
          client_options = \<lparr>client_url = url options, version = ''*'',
            headers = [(''authorization'', ''Bearer '' @ interpolate (accessToken t))]\<rparr>,
          http_method = PUT, path = putConfigObject_path options objectId,
          payload = AnyBody body\<rparr>"
  by (simp add: putConfigObject_request_def getRestifyOptions_bearer)

subsection \<open>putConfigObject: the encoding follows the body\<close>

text \<open>
  C1, as the code has it. When \<open>options.tokens\<close> is an object, \<open>putConfigObject\<close>
  issues one PUT with the body it was given: through a string client when the body is
  a string, and then a successful response that \<open>JSON.parse\<close> accepts resolves the
  promise with the parsed value; through a JSON client otherwise, and then a
  successful response resolves the promise with the transport's object as it is.
\<close>

theorem putConfigObject_encoding_follows_body:
  fixes transport :: "('x, 'v) transport" and JSON_parse :: "'v json_parse"
  assumes "tokens options = Some t"
  shows "\<exists>r. (putConfigObject_request options objectId body :: 'x js_error + 'v request) = Inr r
           \<and> http_method r = PUT \<and> payload r = AnyBody body
           \<and> (is_string body \<longrightarrow>
                client r = StringClient \<and>
                (\<forall>obj v. transport r = (None, obj) \<and> JSON_parse obj = Some v \<longrightarrow>
                   putConfigObject JSON_parse transport options objectId body = Fulfilled v))
           \<and> (\<not> is_string body \<longrightarrow>
                client r = JsonClient \<and>
                (\<forall>obj. transport r = (None, obj) \<longrightarrow>
                   putConfigObject JSON_parse transport options objectId body = Fulfilled obj))"
  using assms
  by (simp add: putConfigObject_request_bearer putConfigObject_def settle_def
      putConfigObject_callback_def putConfigObject_parseResponse_def)

theorem putConfigObject_encoding_follows_body_witness:
  "tokens spec_example = Some \<lparr>accessToken = Some ''AT1'', refreshToken = None\<rparr>
   \<and> is_string (JString ''hello=world'' :: (string \<times> string) list js_any)
   \<and> (putConfigObject_request spec_example ''raw-blob'' (JString ''hello=world'')
        :: unit js_error + (string \<times> string) list request) =
       Inr \<lparr>client = StringClient,
            client_options = \<lparr>client_url = Some ''https://api.example'', version = ''*'',
              headers = [(''authorization'', ''Bearer AT1'')]\<rparr>,
            http_method = PUT, path = ''/sub1/configuration/app1/raw-blob/prod'',
            payload = AnyBody (JString ''hello=world'')\<rparr>
   \<and> putConfigObject (parses_only raw_blob_text raw_blob_object)
         (respond (None :: unit js_error option, JString raw_blob_text))
         spec_example ''raw-blob'' (JString ''hello=world'') = Fulfilled raw_blob_object
   \<and> \<not> is_string raw_blob_object
   \<and> putConfigObject (parses_only raw_blob_text raw_blob_object)
         (respond (None :: unit js_error option, raw_blob_object))
         spec_example ''raw-blob'' raw_blob_object = Fulfilled raw_blob_object"
proof -
  let ?t = "\<lparr>accessToken = Some ''AT1'', refreshToken = None\<rparr>"
  let ?parse = "parses_only raw_blob_text raw_blob_object"
  have h: "tokens spec_example = Some ?t"
    by (simp add: spec_example_def)
  have s: "is_string (JString ''hello=world'' :: (string \<times> string) list js_any)"
    by simp
  have n: "\<not> is_string raw_blob_object"
    by (simp add: raw_blob_object_def)
  have p: "?parse (JString raw_blob_text) = Some raw_blob_object"
    by (simp add: parses_only_def)
  from putConfigObject_encoding_follows_body [OF h, where objectId = "''raw-blob''"
      and body = "JString ''hello=world''" and JSON_parse = ?parse
      and transport = "respond (None :: unit js_error option, JString raw_blob_text)"] s p
  have a: "putConfigObject ?parse (respond (None :: unit js_error option, JString raw_blob_text))
      spec_example ''raw-blob'' (JString ''hello=world'') = Fulfilled raw_blob_object"
    by (auto simp: respond_def)
  from putConfigObject_encoding_follows_body [OF h, where objectId = "''raw-blob''"
      and body = raw_blob_object and JSON_parse = ?parse
      and transport = "respond (None :: unit js_error option, raw_blob_object)"] n
  have b: "putConfigObject ?parse (respond (None :: unit js_error option, raw_blob_object))
      spec_example ''raw-blob'' raw_blob_object = Fulfilled raw_blob_object"
    by (auto simp: respond_def)
  have r: "(putConfigObject_request spec_example ''raw-blob'' (JString ''hello=world'')
        :: unit js_error + (string \<times> string) list request) =
       Inr \<lparr>client = StringClient,
            client_options = \<lparr>client_url = Some ''https://api.example'', version = ''*'',
              headers = [(''authorization'', ''Bearer AT1'')]\<rparr>,
            http_method = PUT, path = ''/sub1/configuration/app1/raw-blob/prod'',
            payload = AnyBody (JString ''hello=world'')\<rparr>"
    unfolding putConfigObject_request_bearer [OF h]
    by (simp add: putConfigObject_path_def spec_example_def)
  from h s r a n b show ?thesis by blast
qed

text \<open>
  The claim as it stands speaks of every call. A call whose options have no \<open>tokens\<close>
  object issues no PUT: \<open>getRestifyOptions\<close> throws and the promise is rejected.
\<close>

theorem putConfigObject_no_tokens_no_request:
  "(putConfigObject_request login_example ''raw-blob'' (JString ''hello=world'')
      :: unit js_error + (string \<times> string) list request) = Inl TypeError
   \<and> putConfigObject (parses_only raw_blob_text raw_blob_object)
        (respond (None :: unit js_error option, JString raw_blob_text))
        login_example ''raw-blob'' (JString ''hello=world'') = Rejected TypeError"
  by (simp add: putConfigObject_def putConfigObject_request_def getRestifyOptions_no_tokens
      login_example_def settle_thrown)

subsection \<open>putConfigObject: a response that is not JSON\<close>

lemma putConfigObject_parse_failure:
  fixes transport :: "('x, 'v) transport"
  assumes "(putConfigObject_request options objectId body :: 'x js_error + 'v request) = Inr r"
    and "transport r = (None, obj)" and "is_string body" and "JSON_parse obj = None"
  shows "putConfigObject JSON_parse transport options objectId body = Unsettled SyntaxError"
  using assms
  by (simp add: putConfigObject_def settle_def putConfigObject_callback_def
      putConfigObject_parseResponse_def)

text \<open>
  C2 asks that a string response that is not JSON reaches the caller as the one error
  of the operation. In the code \<open>JSON.parse\<close> is called inside the callback that
  restify runs, with nothing to catch its exception: neither \<open>resolve\<close> nor \<open>reject\<close>
  is called, the promise stays unsettled and the \<open>SyntaxError\<close> is uncaught. Here
  the body \<open>hello=world\<close> is written and the server answers with the text \<open>OK\<close>.
\<close>

theorem putConfigObject_malformed_response_unsettled:
  "putConfigObject (parses_only raw_blob_text raw_blob_object)
     (respond (None :: unit js_error option, JString ''OK''))
     spec_example ''raw-blob'' (JString ''hello=world'') = Unsettled SyntaxError"
proof -
  have h: "tokens spec_example = Some \<lparr>accessToken = Some ''AT1'', refreshToken = None\<rparr>"
    by (simp add: spec_example_def)
  have p: "parses_only raw_blob_text raw_blob_object (JString ''OK'') = None"
    by (simp add: parses_only_def raw_blob_text_def)
  have t: "respond (None :: unit js_error option, JString ''OK'') r = (None, JString ''OK'')"
    for r :: "(string \<times> string) list request"
    by (simp add: respond_def)
  have s: "is_string (JString ''hello=world'' :: (string \<times> string) list js_any)"
    by simp
  show ?thesis
    by (rule putConfigObject_parse_failure
        [where transport = "respond (None, JString ''OK'')"
          and JSON_parse = "parses_only raw_blob_text raw_blob_object"
          and obj = "JString ''OK''",
         OF putConfigObject_request_bearer [OF h] t s p])
qed

subsection \<open>The two reads\<close>

text \<open>
  C3. With a non-empty access token, \<open>getApplication\<close> and \<open>getConfigObject\<close> each
  issue a GET through a JSON client, to the path of their template, with the single
  header \<open>authorization: Bearer <accessToken>\<close>; a successful response resolves the
  promise with the transport's object.
\<close>

theorem reads_issue_bearer_get:
  fixes transport :: "('x, 'v) transport"
  assumes "tokens options = Some t" and "accessToken t = Some a" and "a \<noteq> []"
  shows "(getApplication_request options :: 'x js_error + 'v request) =
           Inr \<lparr>client = JsonClient,
                client_options = \<lparr>client_url = url options, version = ''*'',
                  headers = [(''authorization'', ''Bearer '' @ a)]\<rparr>,
                http_method = GET,
                path = ''/'' @ interpolate (subscription options) @ ''/applications/'' @
                  interpolate (application options),
                payload = NoBody\<rparr>
       \<and> (getConfigObject_request options objectId :: 'x js_error + 'v request) =
           Inr \<lparr>client = JsonClient,
                client_options = \<lparr>client_url = url options, version = ''*'',
                  headers = [(''authorization'', ''Bearer '' @ a)]\<rparr>,
                http_method = GET,
                path = ''/'' @ interpolate (subscription options) @ ''/configuration/'' @
                  interpolate (application options) @ ''/'' @ objectId @ ''/'' @
                  interpolate (environment options),
                payload = NoBody\<rparr>
       \<and> (\<forall>r. (getApplication_request options :: 'x js_error + 'v request) = Inr r \<and>
              transport r = (None, obj) \<longrightarrow>
              getApplication transport options = Fulfilled obj)
       \<and> (\<forall>r. (getConfigObject_request options objectId :: 'x js_error + 'v request) = Inr r \<and>
              transport r = (None, obj) \<longrightarrow>
              getConfigObject transport options objectId = Fulfilled obj)"
  using assms
  by (simp add: getApplication_request_def getConfigObject_request_def
      getRestifyOptions_bearer getApplication_path_def getConfigObject_path_def
      getApplication_def getConfigObject_def settle_def
      getApplication_callback_def getConfigObject_callback_def)

theorem reads_issue_bearer_get_witness:
  "tokens spec_example = Some \<lparr>accessToken = Some ''AT1'', refreshToken = None\<rparr>
   \<and> accessToken \<lparr>accessToken = Some ''AT1'', refreshToken = None\<rparr> = Some ''AT1''
   \<and> ''AT1'' \<noteq> []
   \<and> (getApplication_request spec_example
        :: unit js_error + (string \<times> string) list request) =
       Inr \<lparr>client = JsonClient,
            client_options = \<lparr>client_url = Some ''https://api.example'', version = ''*'',
              headers = [(''authorization'', ''Bearer AT1'')]\<rparr>,
            http_method = GET, path = ''/sub1/applications/app1'', payload = NoBody\<rparr>
   \<and> (getConfigObject_request spec_example ''feature-flags''
        :: unit js_error + (string \<times> string) list request) =
       Inr \<lparr>client = JsonClient,
            client_options = \<lparr>client_url = Some ''https://api.example'', version = ''*'',
              headers = [(''authorization'', ''Bearer AT1'')]\<rparr>,
            http_method = GET, path = ''/sub1/configuration/app1/feature-flags/prod'',
            payload = NoBody\<rparr>
   \<and> getApplication (respond (None :: unit js_error option, raw_blob_object))
         spec_example = Fulfilled raw_blob_object
   \<and> getConfigObject (respond (None :: unit js_error option, raw_blob_object))
         spec_example ''feature-flags'' = Fulfilled raw_blob_object"
proof -
  have h1: "tokens spec_example = Some \<lparr>accessToken = Some ''AT1'', refreshToken = None\<rparr>"
    by (simp add: spec_example_def)
  have h2: "accessToken \<lparr>accessToken = Some ''AT1'', refreshToken = None\<rparr> = Some ''AT1''"
    by simp
  have h3: "''AT1'' \<noteq> []"
    by simp
  note w = reads_issue_bearer_get [OF h1 h2 h3, where objectId = "''feature-flags''"
      and transport = "respond (None :: unit js_error option, raw_blob_object)"
      and obj = raw_blob_object]
  from w have a: "(getApplication_request spec_example
        :: unit js_error + (string \<times> string) list request) =
       Inr \<lparr>client = JsonClient,
            client_options = \<lparr>client_url = Some ''https://api.example'', version = ''*'',
              headers = [(''authorization'', ''Bearer AT1'')]\<rparr>,
            http_method = GET, path = ''/sub1/applications/app1'', payload = NoBody\<rparr>"
    by (simp add: spec_example_def)
  from w have b: "(getConfigObject_request spec_example ''feature-flags''
        :: unit js_error + (string \<times> string) list request) =
       Inr \<lparr>client = JsonClient,
            client_options = \<lparr>client_url = Some ''https://api.example'', version = ''*'',
              headers = [(''authorization'', ''Bearer AT1'')]\<rparr>,
            http_method = GET, path = ''/sub1/configuration/app1/feature-flags/prod'',
            payload = NoBody\<rparr>"
    by (simp add: spec_example_def)
  from w a have c: "getApplication (respond (None :: unit js_error option, raw_blob_object))
         spec_example = Fulfilled raw_blob_object"
    by (simp add: respond_def)
  from w b have d: "getConfigObject (respond (None :: unit js_error option, raw_blob_object))
         spec_example ''feature-flags'' = Fulfilled raw_blob_object"
    by (simp add: respond_def)
  from h1 h2 h3 a b c d show ?thesis by blast
qed

subsection \<open>The two token requests\<close>

text \<open>
  C4, as the code has it. When \<open>options.credentials\<close> is an object,
  \<open>getAccessTokenFromClientCredentials\<close> issues a POST to \<open>/oauth/token\<close> through a
  JSON client; the body has \<open>grant_type = "client_credentials"\<close> and no
  \<open>refresh_token\<close>, and the one header is \<open>Basic\<close> followed by the base64 of key,
  a colon and secret.
\<close>

theorem client_credentials_request:
  assumes "credentials options = Some c"
  shows "(getAccessTokenFromClientCredentials_request options :: 'x js_error + 'v request) =
           Inr \<lparr>client = JsonClient,
                client_options = \<lparr>client_url = url options, version = ''*'',
                  headers = [(''authorization'',
                    ''Basic '' @ base64 (interpolate (key c) @ '':'' @ interpolate (secret c)))]\<rparr>,
                http_method = POST, path = ''/oauth/token'',
                payload = TokenBody
                  \<lparr>grant_type = Some ''client_credentials'', refresh_token = None\<rparr>\<rparr>"
  using assms
  by (simp add: getAccessTokenFromClientCredentials_request_def getRestifyOptions_basic
      new_TokenRequest_def)

theorem client_credentials_request_witness:
  "credentials login_example = Some \<lparr>key = Some ''key'', secret = Some ''secret''\<rparr>
   \<and> (getAccessTokenFromClientCredentials_request login_example
        :: unit js_error + unit request) =
       Inr \<lparr>client = JsonClient,
            client_options = \<lparr>client_url = Some ''https://api.example'', version = ''*'',
              headers = [(''authorization'', ''Basic a2V5OnNlY3JldA=='')]\<rparr>,
            http_method = POST, path = ''/oauth/token'',
            payload = TokenBody
              \<lparr>grant_type = Some ''client_credentials'', refresh_token = None\<rparr>\<rparr>"
proof -
  have h: "credentials login_example = Some \<lparr>key = Some ''key'', secret = Some ''secret''\<rparr>"
    by (simp add: login_example_def)
  have u: "url login_example = Some ''https://api.example''"
    by (simp add: login_example_def)
  from client_credentials_request [OF h] h u show ?thesis
    by (simp add: base64_key_secret)
qed

text \<open>
  The claim as it stands speaks of every options value. The options of the spec's own
  example have no \<open>credentials\<close>: reading \<open>options.credentials.key\<close> throws and no
  POST is issued.
\<close>

theorem client_credentials_absent_no_request:
  "(getAccessTokenFromClientCredentials_request spec_example
      :: unit js_error + unit request) = Inl TypeError"
  by (simp add: getAccessTokenFromClientCredentials_request_def
      getRestifyOptions_no_credentials spec_example_def)

text \<open>
  C5, as the code has it. When \<open>options.tokens\<close> is an object,
  \<open>getAccessTokenFromRefreshToken\<close> issues a POST to \<open>/oauth/token\<close> through a JSON
  client; the body has \<open>grant_type = "refresh_token"\<close> and the refresh token of the
  options, and the one header is \<open>Bearer\<close> followed by the access token of the options.
\<close>

theorem refresh_token_request:
  assumes "tokens options = Some t"
  shows "(getAccessTokenFromRefreshToken_request options :: 'x js_error + 'v request) =
           Inr \<lparr>client = JsonClient,
                client_options = \<lparr>client_url = url options, version = ''*'',
                  headers = [(''authorization'', ''Bearer '' @ interpolate (accessToken t))]\<rparr>,
                http_method = POST, path = ''/oauth/token'',
                payload = TokenBody
                  \<lparr>grant_type = Some ''refresh_token'', refresh_token = refreshToken t\<rparr>\<rparr>"
  using assms
  by (simp add: getAccessTokenFromRefreshToken_request_def getRestifyOptions_bearer
      new_TokenRequest_def)

theorem refresh_token_request_witness:
  "tokens full_example = Some \<lparr>accessToken = Some ''AT1'', refreshToken = Some ''RT1''\<rparr>
   \<and> (getAccessTokenFromRefreshToken_request full_example
        :: unit js_error + unit request) =
       Inr \<lparr>client = JsonClient,
            client_options = \<lparr>client_url = Some ''https://api.example'', version = ''*'',
              headers = [(''authorization'', ''Bearer AT1'')]\<rparr>,
            http_method = POST, path = ''/oauth/token'',
            payload = TokenBody
              \<lparr>grant_type = Some ''refresh_token'', refresh_token = Some ''RT1''\<rparr>\<rparr>"
proof -
  have h: "tokens full_example = Some \<lparr>accessToken = Some ''AT1'', refreshToken = Some ''RT1''\<rparr>"
    by (simp add: full_example_def)
  have u: "url full_example = Some ''https://api.example''"
    by (simp add: full_example_def)
  from refresh_token_request [OF h] h u show ?thesis
    by simp
qed

text \<open>
  The claim as it stands speaks of every options value. A client that has its
  credentials and no tokens yet issues no POST: reading \<open>options.tokens.accessToken\<close>
  throws.
\<close>

theorem refresh_token_absent_no_request:
  "(getAccessTokenFromRefreshToken_request login_example
      :: unit js_error + unit request) = Inl TypeError"
  by (simp add: getAccessTokenFromRefreshToken_request_def getRestifyOptions_no_tokens
      login_example_def)

subsection \<open>Transport errors\<close>

text \<open>
  C6. Whenever one of the five operations has issued its request and the transport
  calls back with an error, the promise of the operation is rejected with that error.
\<close>

theorem transport_error_rejects_unchanged:
  fixes transport :: "('x, 'v) transport" and JSON_parse :: "'v json_parse"
  shows "(\<forall>r. (getApplication_request options :: 'x js_error + 'v request) = Inr r \<and>
              transport r = (Some e, obj) \<longrightarrow>
            getApplication transport options = Rejected e)
       \<and> (\<forall>r. (getConfigObject_request options objectId :: 'x js_error + 'v request) = Inr r \<and>
              transport r = (Some e, obj) \<longrightarrow>
            getConfigObject transport options objectId = Rejected e)
       \<and> (\<forall>r. (putConfigObject_request options objectId body :: 'x js_error + 'v request) = Inr r \<and>
              transport r = (Some e, obj) \<longrightarrow>
            putConfigObject JSON_parse transport options objectId body = Rejected e)
       \<and> (\<forall>r. (getAccessTokenFromRefreshToken_request options :: 'x js_error + 'v request) = Inr r \<and>
              transport r = (Some e, obj) \<longrightarrow>
            getAccessTokenFromRefreshToken transport options = Rejected e)
       \<and> (\<forall>r. (getAccessTokenFromClientCredentials_request options
                :: 'x js_error + 'v request) = Inr r \<and>
              transport r = (Some e, obj) \<longrightarrow>
            getAccessTokenFromClientCredentials transport options = Rejected e)"
  by (simp add: getApplication_def getConfigObject_def putConfigObject_def
      getAccessTokenFromRefreshToken_def getAccessTokenFromClientCredentials_def settle_def
      getApplication_callback_def getConfigObject_callback_def putConfigObject_callback_def
      getAccessTokenFromRefreshToken_callback_def
      getAccessTokenFromClientCredentials_callback_def)

lemma full_example_issues:
  "\<exists>r. (getApplication_request full_example :: 'x js_error + 'v request) = Inr r"
  "\<exists>r. (getConfigObject_request full_example objectId :: 'x js_error + 'v request) = Inr r"
  "\<exists>r. (putConfigObject_request full_example objectId body :: 'x js_error + 'v request) = Inr r"
  "\<exists>r. (getAccessTokenFromRefreshToken_request full_example :: 'x js_error + 'v request) = Inr r"
  "\<exists>r. (getAccessTokenFromClientCredentials_request full_example
          :: 'x js_error + 'v request) = Inr r"
  by (simp_all add: getApplication_request_def getConfigObject_request_def
      putConfigObject_request_def getAccessTokenFromRefreshToken_request_def
      getAccessTokenFromClientCredentials_request_def getRestifyOptions_def full_example_def)

theorem transport_error_rejects_unchanged_witness:
  "getApplication
     (respond (Some (OtherError ''ECONNREFUSED''), raw_blob_object)) full_example =
     Rejected (OtherError ''ECONNREFUSED'')
   \<and> getConfigObject
     (respond (Some (OtherError ''ECONNREFUSED''), raw_blob_object)) full_example
     ''feature-flags'' = Rejected (OtherError ''ECONNREFUSED'')
   \<and> putConfigObject (parses_only raw_blob_text raw_blob_object)
     (respond (Some (OtherError ''ECONNREFUSED''), raw_blob_object)) full_example
     ''raw-blob'' (JString ''hello=world'') = Rejected (OtherError ''ECONNREFUSED'')
   \<and> getAccessTokenFromRefreshToken
     (respond (Some (OtherError ''ECONNREFUSED''), raw_blob_object)) full_example =
     Rejected (OtherError ''ECONNREFUSED'')
   \<and> getAccessTokenFromClientCredentials
     (respond (Some (OtherError ''ECONNREFUSED''), raw_blob_object)) full_example =
     Rejected (OtherError ''ECONNREFUSED'')"
  using transport_error_rejects_unchanged
    [where transport = "respond (Some (OtherError ''ECONNREFUSED''), raw_blob_object)"
      and e = "OtherError ''ECONNREFUSED''" and obj = raw_blob_object
      and options = full_example and objectId = "''feature-flags''"
      and JSON_parse = "parses_only raw_blob_text raw_blob_object"]
    transport_error_rejects_unchanged
    [where transport = "respond (Some (OtherError ''ECONNREFUSED''), raw_blob_object)"
      and e = "OtherError ''ECONNREFUSED''" and obj = raw_blob_object
      and options = full_example and objectId = "''raw-blob''"
      and body = "JString ''hello=world''"
      and JSON_parse = "parses_only raw_blob_text raw_blob_object"]
    full_example_issues [where 'x = string and 'v = "(string \<times> string) list"]
  by (simp add: respond_def)

subsection \<open>One authorization header\<close>

text \<open>
  C7, as the code has it. When the object the header is read from is there, the
  request an operation issues carries exactly one header, \<open>authorization\<close>:
  \<open>Basic\<close> with the base64 of key, colon and secret for
  \<open>getAccessTokenFromClientCredentials\<close>, read from \<open>options.credentials\<close>, and
  \<open>Bearer\<close> with the access token for the other four, the refresh of the token
  among them, read from \<open>options.tokens\<close>. A call whose options lack that object
  issues no request.
\<close>

theorem one_authorization_header:
  "(tokens options = Some t \<longrightarrow>
      (\<exists>r. (getApplication_request options :: 'x js_error + 'v request) = Inr r \<and>
         headers (client_options r) =
           [(''authorization'', ''Bearer '' @ interpolate (accessToken t))])
    \<and> (\<exists>r. (getConfigObject_request options objectId :: 'x js_error + 'v request) = Inr r \<and>
         headers (client_options r) =
           [(''authorization'', ''Bearer '' @ interpolate (accessToken t))])
    \<and> (\<exists>r. (putConfigObject_request options objectId body :: 'x js_error + 'v request) =
           Inr r \<and>
         headers (client_options r) =
           [(''authorization'', ''Bearer '' @ interpolate (accessToken t))])
    \<and> (\<exists>r. (getAccessTokenFromRefreshToken_request options :: 'x js_error + 'v request) =
           Inr r \<and>
         headers (client_options r) =
           [(''authorization'', ''Bearer '' @ interpolate (accessToken t))]))
   \<and> (credentials options = Some c \<longrightarrow>
      (\<exists>r. (getAccessTokenFromClientCredentials_request options
            :: 'x js_error + 'v request) = Inr r \<and>
         headers (client_options r) =
           [(''authorization'',
             ''Basic '' @ base64 (interpolate (key c) @ '':'' @ interpolate (secret c)))]))
   \<and> (tokens options = None \<longrightarrow>
        (getApplication_request options :: 'x js_error + 'v request) = Inl TypeError
      \<and> (getConfigObject_request options objectId :: 'x js_error + 'v request) = Inl TypeError
      \<and> (putConfigObject_request options objectId body :: 'x js_error + 'v request) =
          Inl TypeError
      \<and> (getAccessTokenFromRefreshToken_request options :: 'x js_error + 'v request) =
          Inl TypeError)
   \<and> (credentials options = None \<longrightarrow>
        (getAccessTokenFromClientCredentials_request options :: 'x js_error + 'v request) =
          Inl TypeError)"
  by (simp add: getApplication_request_def getConfigObject_request_def
      putConfigObject_request_def getAccessTokenFromRefreshToken_request_def
      getAccessTokenFromClientCredentials_request_def getRestifyOptions_def)

theorem one_authorization_header_witness:
  "tokens full_example = Some \<lparr>accessToken = Some ''AT1'', refreshToken = Some ''RT1''\<rparr>
   \<and> (\<exists>r. (getApplication_request full_example :: unit js_error + unit request) = Inr r
        \<and> headers (client_options r) = [(''authorization'', ''Bearer AT1'')])
   \<and> (\<exists>r. (getConfigObject_request full_example ''feature-flags''
          :: unit js_error + unit request) = Inr r
        \<and> headers (client_options r) = [(''authorization'', ''Bearer AT1'')])
   \<and> (\<exists>r. (putConfigObject_request full_example ''feature-flags'' (JString ''x'')
          :: unit js_error + unit request) = Inr r
        \<and> headers (client_options r) = [(''authorization'', ''Bearer AT1'')])
   \<and> (\<exists>r. (getAccessTokenFromRefreshToken_request full_example
          :: unit js_error + unit request) = Inr r
        \<and> headers (client_options r) = [(''authorization'', ''Bearer AT1'')])
   \<and> credentials full_example = Some \<lparr>key = Some ''key'', secret = Some ''secret''\<rparr>
   \<and> (\<exists>r. (getAccessTokenFromClientCredentials_request full_example
          :: unit js_error + unit request) = Inr r
        \<and> headers (client_options r) = [(''authorization'', ''Basic a2V5OnNlY3JldA=='')])
   \<and> tokens login_example = None
   \<and> (getApplication_request login_example :: unit js_error + unit request) = Inl TypeError
   \<and> credentials spec_example = None
   \<and> (getAccessTokenFromClientCredentials_request spec_example
        :: unit js_error + unit request) = Inl TypeError"
proof -
  let ?t = "\<lparr>accessToken = Some ''AT1'', refreshToken = Some ''RT1''\<rparr>"
  let ?c = "\<lparr>key = Some ''key'', secret = Some ''secret''\<rparr>"
  have t: "tokens full_example = Some ?t"
    by (simp add: full_example_def)
  have c: "credentials full_example = Some ?c"
    by (simp add: full_example_def)
  have n: "tokens login_example = None"
    by (simp add: login_example_def)
  have m: "credentials spec_example = None"
    by (simp add: spec_example_def)
  note w = one_authorization_header [where 'x = unit and 'v = unit
      and options = full_example and t = ?t and c = ?c
      and objectId = "''feature-flags''" and body = "JString ''x''"]
  note v = one_authorization_header [where 'x = unit and 'v = unit
      and options = login_example and objectId = "''feature-flags''"
      and body = "JString ''x''"]
  note u = one_authorization_header [where 'x = unit and 'v = unit
      and options = spec_example and objectId = "''feature-flags''"
      and body = "JString ''x''"]
  from w t have a: "(\<exists>r. (getApplication_request full_example
        :: unit js_error + unit request) = Inr r
        \<and> headers (client_options r) = [(''authorization'', ''Bearer AT1'')])
   \<and> (\<exists>r. (getConfigObject_request full_example ''feature-flags''
          :: unit js_error + unit request) = Inr r
        \<and> headers (client_options r) = [(''authorization'', ''Bearer AT1'')])
   \<and> (\<exists>r. (putConfigObject_request full_example ''feature-flags'' (JString ''x'')
          :: unit js_error + unit request) = Inr r
        \<and> headers (client_options r) = [(''authorization'', ''Bearer AT1'')])
   \<and> (\<exists>r. (getAccessTokenFromRefreshToken_request full_example
          :: unit js_error + unit request) = Inr r
        \<and> headers (client_options r) = [(''authorization'', ''Bearer AT1'')])"
    by simp
  from w c have b: "\<exists>r. (getAccessTokenFromClientCredentials_request full_example
          :: unit js_error + unit request) = Inr r
        \<and> headers (client_options r) = [(''authorization'', ''Basic a2V5OnNlY3JldA=='')]"
    by (simp add: base64_key_secret)
  from v n have d: "(getApplication_request login_example :: unit js_error + unit request) =
      Inl TypeError"
    by blast
  from u m have e: "(getAccessTokenFromClientCredentials_request spec_example
      :: unit js_error + unit request) = Inl TypeError"
    by blast
  from t a c b n d m e show ?thesis by blast
qed

text \<open>
  The claim as it stands speaks of every call. A call of \<open>getConfigObject\<close> by a
  client that has no tokens yet produces no header: \<open>getRestifyOptions\<close> throws
  before the header is assigned.
\<close>

theorem no_tokens_no_header:
  "(getRestifyOptions login_example None :: unit js_error + ClientOptions) = Inl TypeError
   \<and> (getConfigObject_request login_example ''feature-flags''
        :: unit js_error + unit request) = Inl TypeError"
  by (simp add: getConfigObject_request_def getRestifyOptions_no_tokens login_example_def)

subsection \<open>One path for reading and writing a configuration object\<close>

text \<open>
  C9. \<open>putConfigObject\<close> and \<open>getConfigObject\<close> build the same path from the same
  options and object id, the path of the template; and the one issues a request with
  that path exactly when the other does.
\<close>

theorem put_and_get_paths_agree:
  "putConfigObject_path options objectId = getConfigObject_path options objectId
   \<and> getConfigObject_path options objectId =
       ''/'' @ interpolate (subscription options) @ ''/configuration/'' @
       interpolate (application options) @ ''/'' @ objectId @ ''/'' @
       interpolate (environment options)
   \<and> map_sum id path
        (putConfigObject_request options objectId body :: 'x js_error + 'v request) =
      map_sum id path
        (getConfigObject_request options objectId :: 'x js_error + 'v request)"
  by (simp add: putConfigObject_path_def getConfigObject_path_def putConfigObject_request_def
      getConfigObject_request_def split: sum.splits)

subsection \<open>No check of the options\<close>





subsection \<open>The operations leave the options as they were\<close>

lemmas store_defs =
  js_bind_def js_return_def get_property_def new_object_def set_property_def

lemma frame_return: "Q x \<Longrightarrow> frame s0 (js_return x) Q"
  by (simp add: frame_def js_return_def)

lemma frame_bind:
  "frame s0 m P \<Longrightarrow> (\<And>x. P x \<Longrightarrow> frame s0 (f x) Q) \<Longrightarrow> frame s0 (js_bind m f) Q"
  unfolding frame_def js_bind_def
  by (auto split: prod.splits sum.splits)

lemma frame_get_property: "frame s0 (get_property v p) (\<lambda>w. True)"
  by (simp add: frame_def get_property_def split: js_val.splits)

lemma frame_new_object: "frame s0 (new_object ob) (\<lambda>a. length s0 \<le> a)"
  by (simp add: frame_def new_object_def extends_def)

lemma frame_set_property: "length s0 \<le> a \<Longrightarrow> frame s0 (set_property a p v) (\<lambda>u. True)"
  by (simp add: frame_def set_property_def extends_def)

lemma frame_if:
  "(c \<Longrightarrow> frame s0 m Q) \<Longrightarrow> (\<not> c \<Longrightarrow> frame s0 n Q) \<Longrightarrow> frame s0 (if c then m else n) Q"
  by simp

lemmas frame_rules =
  frame_bind frame_get_property frame_new_object frame_set_property frame_return frame_if

lemma frame_getRestifyOptions:
  "frame s0 (getRestifyOptions_store options credentialType) (\<lambda>a. length s0 \<le> a)"
  unfolding getRestifyOptions_store_def
  by (rule frame_rules | assumption)+

lemma frame_getApplication: "frame s0 (getApplication_store options) (\<lambda>r. True)"
  unfolding getApplication_store_def
  by (rule frame_rules frame_getRestifyOptions TrueI | assumption)+

lemma frame_getConfigObject: "frame s0 (getConfigObject_store options objectId) (\<lambda>r. True)"
  unfolding getConfigObject_store_def
  by (rule frame_rules frame_getRestifyOptions TrueI | assumption)+

lemma frame_putConfigObject:
  "frame s0 (putConfigObject_store options objectId body) (\<lambda>r. True)"
  unfolding putConfigObject_store_def
  by (rule frame_rules frame_getRestifyOptions TrueI | assumption)+

lemma frame_getAccessTokenFromRefreshToken:
  "frame s0 (getAccessTokenFromRefreshToken_store options) (\<lambda>r. True)"
  unfolding getAccessTokenFromRefreshToken_store_def
  by (rule frame_rules frame_getRestifyOptions TrueI | assumption)+

lemma frame_getAccessTokenFromClientCredentials:
  "frame s0 (getAccessTokenFromClientCredentials_store options) (\<lambda>r. True)"
  unfolding getAccessTokenFromClientCredentials_store_def
  by (rule frame_rules frame_getRestifyOptions TrueI | assumption)+

lemma frame_take: "frame s m Q \<Longrightarrow> take (length s) (snd (m s)) = s"
  by (simp add: frame_def extends_def)

lemma take_nth_same: "take (length s) s' = s \<Longrightarrow> i < length s \<Longrightarrow> s' ! i = s ! i"
  by (metis nth_take)

lemma IOptions_at_extended:
  assumes "well_typed s a" and "take (length s) s' = s"
  shows "IOptions_at s' a = IOptions_at s a"
proof -
  from assms have a: "s' ! a = s ! a"
    by (simp add: well_typed_def take_nth_same)
  have c: "Credentials_at s' c = Credentials_at s c"
    if "property (s ! a) ''credentials'' = Ref c" for c
    using that assms by (simp add: well_typed_def Credentials_at_def take_nth_same)
  have t: "Tokens_at s' t = Tokens_at s t"
    if "property (s ! a) ''tokens'' = Ref t" for t
    using that assms by (simp add: well_typed_def Tokens_at_def take_nth_same)
  show ?thesis
    by (simp add: IOptions_at_def a c t split: js_val.splits)
qed

lemma requests_leave_store_unchanged:
  "take (length s) (snd (getApplication_store options s)) = s"
  "take (length s) (snd (getConfigObject_store options objectId s)) = s"
  "take (length s) (snd (putConfigObject_store options objectId body s)) = s"
  "take (length s) (snd (getAccessTokenFromRefreshToken_store options s)) = s"
  "take (length s) (snd (getAccessTokenFromClientCredentials_store options s)) = s"
  by (rule frame_take [OF frame_getApplication] frame_take [OF frame_getConfigObject]
      frame_take [OF frame_putConfigObject] frame_take [OF frame_getAccessTokenFromRefreshToken]
      frame_take [OF frame_getAccessTokenFromClientCredentials])+

lemma frame_extends: "frame s0 m Q \<Longrightarrow> extends s0 s \<Longrightarrow> extends s0 (snd (m s))"
  by (simp add: frame_def)

lemma extends_refl: "extends s s"
  by (simp add: extends_def)

lemma frame_return_any: "frame s0 (js_return x) (\<lambda>y. True)"
  by (simp add: frame_def js_return_def)

lemma frame_callback_plain:
  "frame s0 (case err of Some e \<Rightarrow> js_return (Reject e)
      | None \<Rightarrow> js_return (Resolve (any_of obj))) (\<lambda>x. True)"
  by (cases err) (simp_all add: frame_return_any)

lemma frame_getApplication_callback:
  "frame s0 (getApplication_callback_store err obj) (\<lambda>x. True)"
  unfolding getApplication_callback_store_def by (rule frame_callback_plain)

lemma frame_getConfigObject_callback:
  "frame s0 (getConfigObject_callback_store err obj) (\<lambda>x. True)"
  unfolding getConfigObject_callback_store_def by (rule frame_callback_plain)

lemma frame_getAccessTokenFromRefreshToken_callback:
  "frame s0 (getAccessTokenFromRefreshToken_callback_store err obj) (\<lambda>x. True)"
  unfolding getAccessTokenFromRefreshToken_callback_store_def by (rule frame_callback_plain)

lemma frame_getAccessTokenFromClientCredentials_callback:
  "frame s0 (getAccessTokenFromClientCredentials_callback_store err obj) (\<lambda>x. True)"
  unfolding getAccessTokenFromClientCredentials_callback_store_def
  by (rule frame_callback_plain)

lemma frame_putConfigObject_callback:
  assumes "\<And>v. frame s0 (JSON_parse v) (\<lambda>x. True)"
  shows "frame s0 (putConfigObject_callback_store JSON_parse parseResponse err obj) (\<lambda>x. True)"
proof (cases err)
  case None
  have "frame s0 (js_bind (JSON_parse obj) (\<lambda>parsed. js_return (Resolve (any_of parsed))))
      (\<lambda>x. True)"
    by (rule frame_bind [OF assms]) (rule frame_return_any)
  with None show ?thesis
    unfolding putConfigObject_callback_store_def
    by (cases parseResponse) (simp_all add: frame_return_any)
next
  case (Some e)
  then show ?thesis
    by (simp add: putConfigObject_callback_store_def frame_return_any)
qed

lemma settle_store_extends:
  assumes c: "frame s0 call P"
    and t: "\<And>r. frame s0 (transport r) T"
    and k: "\<And>err obj. frame s0 (callback err obj) K"
    and e: "extends s0 s"
  shows "extends s0 (snd (settle_store transport call callback s))"
proof -
  obtain x s1 where 1: "call s = (x, s1)"
    by (cases "call s")
  from frame_extends [OF c e] 1 have e1: "extends s0 s1"
    by simp
  show ?thesis
  proof (cases x)
    case (Inl err)
    with 1 e1 show ?thesis
      by (simp add: settle_store_def)
  next
    case (Inr r)
    obtain y s2 where 2: "transport r s1 = (y, s2)"
      by (cases "transport r s1")
    from frame_extends [OF t e1, of r] 2 have e2: "extends s0 s2"
      by simp
    show ?thesis
    proof (cases y)
      case (Inl err)
      with 1 2 Inr e2 show ?thesis
        by (simp add: settle_store_def)
    next
      case (Inr eo)
      obtain err obj where eo: "eo = (err, obj)"
        by (cases eo)
      obtain z s3 where 3: "callback err obj s2 = (z, s3)"
        by (cases "callback err obj s2")
      from frame_extends [OF k e2, of err obj] 3 have e3: "extends s0 s3"
        by simp
      from 1 2 3 \<open>x = Inr r\<close> Inr eo e3 show ?thesis
        by (simp add: settle_store_def split: sum.splits settlement.splits)
    qed
  qed
qed

lemma settle_store_take:
  assumes "frame s call P"
    and "\<And>r. frame s (transport r) T"
    and "\<And>err obj. frame s (callback err obj) K"
  shows "take (length s) (snd (settle_store transport call callback s)) = s"
  using settle_store_extends [OF assms extends_refl]
  by (simp add: extends_def)

text \<open>
  The callbacks on the store do what the callbacks on values do, and leave the store
  as it is.
\<close>

lemma callbacks_store_agree:
  "getApplication_callback_store err obj s =
     (Inr (getApplication_callback err (any_of obj)), s)"
  "getConfigObject_callback_store err obj s =
     (Inr (getConfigObject_callback err (any_of obj)), s)"
  "getAccessTokenFromRefreshToken_callback_store err obj s =
     (Inr (getAccessTokenFromRefreshToken_callback err (any_of obj)), s)"
  "getAccessTokenFromClientCredentials_callback_store err obj s =
     (Inr (getAccessTokenFromClientCredentials_callback err (any_of obj)), s)"
  "putConfigObject_callback_store JSON_parse False err obj s =
     (Inr (putConfigObject_callback parse False err (any_of obj)), s)"
  "putConfigObject_callback_store JSON_parse parseResponse (Some e) obj s =
     (Inr (putConfigObject_callback parse parseResponse (Some e) (any_of obj)), s)"
  by (simp_all add: getApplication_callback_store_def getConfigObject_callback_store_def
      getAccessTokenFromRefreshToken_callback_store_def
      getAccessTokenFromClientCredentials_callback_store_def
      putConfigObject_callback_store_def getApplication_callback_def
      getConfigObject_callback_def getAccessTokenFromRefreshToken_callback_def
      getAccessTokenFromClientCredentials_callback_def putConfigObject_callback_def
      js_return_def split: option.splits)

text \<open>
  C8. A call is the request, the transport's answer and the callback, one after the
  other on the store. Whatever store the call starts in and whatever \<open>options\<close>
  refers to, if the transport and \<open>JSON.parse\<close> leave the objects of that store as
  they are, so does each of the five operations: the store after the call holds
  every object of the first store at its address with the properties it had. The
  assignments of an operation go to the objects it has created itself (the client
  options, the headers, the token request), and its callback assigns to no property.
  So the options object, its credentials and its tokens read the same after the call
  as before; and when a token request succeeds, the promise is fulfilled with the
  transport's object and the callback leaves the store as the transport left it: the
  new tokens are in the result alone.
\<close>

theorem operations_leave_options_unchanged:
  assumes "\<And>r. frame s (transport r) (\<lambda>x. True)"
    and "\<And>v. frame s (JSON_parse v) (\<lambda>x. True)"
  shows "take (length s) (snd (getApplication_run transport options s)) = s
   \<and> take (length s) (snd (getConfigObject_run transport options objectId s)) = s
   \<and> take (length s) (snd (putConfigObject_run JSON_parse transport options objectId body s)) = s
   \<and> take (length s) (snd (getAccessTokenFromRefreshToken_run transport options s)) = s
   \<and> take (length s) (snd (getAccessTokenFromClientCredentials_run transport options s)) = s
   \<and> (well_typed s a \<longrightarrow>
        IOptions_at (snd (getApplication_run transport (Ref a) s)) a = IOptions_at s a
      \<and> IOptions_at (snd (getConfigObject_run transport (Ref a) objectId s)) a =
          IOptions_at s a
      \<and> IOptions_at (snd (putConfigObject_run JSON_parse transport (Ref a) objectId body s)) a =
          IOptions_at s a
      \<and> IOptions_at (snd (getAccessTokenFromRefreshToken_run transport (Ref a) s)) a =
          IOptions_at s a
      \<and> IOptions_at (snd (getAccessTokenFromClientCredentials_run transport (Ref a) s)) a =
          IOptions_at s a)
   \<and> (\<forall>r s1 obj s2.
        getAccessTokenFromRefreshToken_store options s = (Inr r, s1) \<and>
        transport r s1 = (Inr (None, obj), s2) \<longrightarrow>
        getAccessTokenFromRefreshToken_run transport options s = (Fulfilled (any_of obj), s2))
   \<and> (\<forall>r s1 obj s2.
        getAccessTokenFromClientCredentials_store options s = (Inr r, s1) \<and>
        transport r s1 = (Inr (None, obj), s2) \<longrightarrow>
        getAccessTokenFromClientCredentials_run transport options s =
          (Fulfilled (any_of obj), s2))"
proof -
  note k = frame_putConfigObject_callback [of s JSON_parse, OF assms(2)]
  have f: "take (length s) (snd (getApplication_run transport p s)) = s"
    "take (length s) (snd (getConfigObject_run transport p objectId s)) = s"
    "take (length s) (snd (putConfigObject_run JSON_parse transport p objectId body s)) = s"
    "take (length s) (snd (getAccessTokenFromRefreshToken_run transport p s)) = s"
    "take (length s) (snd (getAccessTokenFromClientCredentials_run transport p s)) = s"
    for p
    unfolding getApplication_run_def getConfigObject_run_def putConfigObject_run_def
      getAccessTokenFromRefreshToken_run_def getAccessTokenFromClientCredentials_run_def
    by (rule settle_store_take [OF frame_getApplication assms(1) frame_getApplication_callback]
        settle_store_take [OF frame_getConfigObject assms(1) frame_getConfigObject_callback]
        settle_store_take [OF frame_putConfigObject assms(1) k]
        settle_store_take [OF frame_getAccessTokenFromRefreshToken assms(1)
          frame_getAccessTokenFromRefreshToken_callback]
        settle_store_take [OF frame_getAccessTokenFromClientCredentials assms(1)
          frame_getAccessTokenFromClientCredentials_callback])+
  have g: "IOptions_at (snd (getApplication_run transport (Ref a) s)) a = IOptions_at s a
      \<and> IOptions_at (snd (getConfigObject_run transport (Ref a) objectId s)) a =
          IOptions_at s a
      \<and> IOptions_at (snd (putConfigObject_run JSON_parse transport (Ref a) objectId body s)) a =
          IOptions_at s a
      \<and> IOptions_at (snd (getAccessTokenFromRefreshToken_run transport (Ref a) s)) a =
          IOptions_at s a
      \<and> IOptions_at (snd (getAccessTokenFromClientCredentials_run transport (Ref a) s)) a =
          IOptions_at s a"
    if "well_typed s a"
    by (intro conjI IOptions_at_extended [OF that] f)
  have h: "getAccessTokenFromRefreshToken_run transport options s = (Fulfilled (any_of obj), s2)"
    if "getAccessTokenFromRefreshToken_store options s = (Inr r, s1)"
      and "transport r s1 = (Inr (None, obj), s2)" for r s1 obj s2
    using that
    by (simp add: getAccessTokenFromRefreshToken_run_def settle_store_def
        getAccessTokenFromRefreshToken_callback_store_def js_return_def)
  have i: "getAccessTokenFromClientCredentials_run transport options s =
      (Fulfilled (any_of obj), s2)"
    if "getAccessTokenFromClientCredentials_store options s = (Inr r, s1)"
      and "transport r s1 = (Inr (None, obj), s2)" for r s1 obj s2
    using that
    by (simp add: getAccessTokenFromClientCredentials_run_def settle_store_def
        getAccessTokenFromClientCredentials_callback_store_def js_return_def)
  from f [of options] g h i show ?thesis
    by blast
qed

lemma frame_respond_store: "frame s0 (respond_store err ob r) (\<lambda>x. True)"
  unfolding respond_store_def
  by (rule frame_bind [OF frame_new_object]) (rule frame_return_any)

lemma frame_parses_only_store: "frame s0 (parses_only_store text ob v) (\<lambda>x. True)"
proof (cases "v = Str text")
  case True
  have "frame s0 (js_bind (new_object ob) (\<lambda>a. js_return (Ref a))) (\<lambda>x. True)"
    by (rule frame_bind [OF frame_new_object]) (rule frame_return_any)
  with True show ?thesis
    by (simp add: parses_only_store_def)
next
  case False
  then show ?thesis
    by (simp add: parses_only_store_def frame_def js_throw_def)
qed

lemma getAccessTokenFromRefreshToken_run_full:
  "getAccessTokenFromRefreshToken_run (respond_store None token_response) (Ref 0) full_store =
     (Fulfilled (JOther (Ref 6)),
      full_store @
      [[(''url'', Str ''https://api.example''), (''version'', Str ''*''),
        (''headers'', Ref 4)],
       [(''authorization'', Str ''Bearer AT1'')],
       [(''grant_type'', Str ''refresh_token''), (''refresh_token'', Str ''RT1'')],
       token_response])"
  by code_simp

theorem operations_leave_options_unchanged_witness:
  "well_typed full_store 0
   \<and> IOptions_at full_store 0 = full_example
   \<and> getAccessTokenFromRefreshToken_run (respond_store None token_response) (Ref 0)
        full_store =
       (Fulfilled (JOther (Ref 6)),
        full_store @
        [[(''url'', Str ''https://api.example''), (''version'', Str ''*''),
          (''headers'', Ref 4)],
         [(''authorization'', Str ''Bearer AT1'')],
         [(''grant_type'', Str ''refresh_token''), (''refresh_token'', Str ''RT1'')],
         token_response])
   \<and> IOptions_at
        (snd (getAccessTokenFromRefreshToken_run (respond_store None token_response) (Ref 0)
          full_store)) 0 = full_example"
proof -
  have w: "well_typed full_store 0"
    by (simp add: well_typed_def full_store_def property_def)
  have o: "IOptions_at full_store 0 = full_example"
    by (simp add: IOptions_at_def Credentials_at_def Tokens_at_def full_store_def
        full_example_def property_def)
  note t = operations_leave_options_unchanged
    [where s = full_store and transport = "respond_store None token_response"
      and JSON_parse = "parses_only_store raw_blob_text token_response"
      and a = 0 and options = "Ref 0" and objectId = "''raw-blob''" and body = "Str ''x''",
     OF frame_respond_store frame_parses_only_store]
  from t w o have u: "IOptions_at
      (snd (getAccessTokenFromRefreshToken_run (respond_store None token_response) (Ref 0)
        full_store)) 0 = full_example"
    by simp
  from w o u getAccessTokenFromRefreshToken_run_full show ?thesis
    by blast
qed

subsection \<open>The two readings of the methods agree\<close>

text \<open>
  On a well-typed options object, what a method leaves in the store is the request
  that the method computes from the options value the object stands for.
\<close>

lemma getRestifyOptions_store_bearer:
  assumes "well_typed s a" and "property (s ! a) ''tokens'' = Ref t"
  shows "getRestifyOptions_store (Ref a) None s =
    (Inr (length s),
     s @ [[(''url'', property (s ! a) ''url''), (''version'', Str ''*''),
           (''headers'', Ref (Suc (length s)))],
          [(''authorization'',
            Str (''Bearer '' @ template (property (s ! t) ''accessToken'')))]])"
proof -
  from assms have "a < length s" and "t < length s"
    by (simp_all add: well_typed_def)
  with assms(2) show ?thesis
    by (simp add: getRestifyOptions_store_def store_defs nth_append list_update_append)
qed

lemma getRestifyOptions_store_no_tokens:
  assumes "well_typed s a" and "property (s ! a) ''tokens'' = Undefined"
  shows "getRestifyOptions_store (Ref a) None s =
    (Inl TypeError,
     s @ [[(''url'', property (s ! a) ''url''), (''version'', Str ''*'')], []])"
proof -
  from assms have "a < length s"
    by (simp add: well_typed_def)
  with assms(2) show ?thesis
    by (simp add: getRestifyOptions_store_def store_defs nth_append)
qed

lemma getRestifyOptions_store_basic:
  assumes "well_typed s a" and "property (s ! a) ''credentials'' = Ref c"
  shows "getRestifyOptions_store (Ref a) (Some ''basic'') s =
    (Inr (length s),
     s @ [[(''url'', property (s ! a) ''url''), (''version'', Str ''*''),
           (''headers'', Ref (Suc (length s)))],
          [(''authorization'',
            Str (''Basic '' @ base64 (template (property (s ! c) ''key'') @ '':'' @
              template (property (s ! c) ''secret''))))]])"
proof -
  from assms have "a < length s" and "c < length s"
    by (simp_all add: well_typed_def)
  with assms(2) show ?thesis
    by (simp add: getRestifyOptions_store_def store_defs nth_append list_update_append)
qed

lemma getRestifyOptions_store_no_credentials:
  assumes "well_typed s a" and "property (s ! a) ''credentials'' = Undefined"
  shows "getRestifyOptions_store (Ref a) (Some ''basic'') s =
    (Inl TypeError,
     s @ [[(''url'', property (s ! a) ''url''), (''version'', Str ''*'')], []])"
proof -
  from assms have "a < length s"
    by (simp add: well_typed_def)
  with assms(2) show ?thesis
    by (simp add: getRestifyOptions_store_def store_defs nth_append)
qed

lemma template_string_of:
  "is_string_or_undefined v \<Longrightarrow> template v = interpolate (string_of v)"
  by (cases v) simp_all

lemma well_typed_strings:
  assumes "well_typed s a"
  shows "a < length s"
    and "template (property (s ! a) ''subscription'') =
         interpolate (string_of (property (s ! a) ''subscription''))"
    and "template (property (s ! a) ''application'') =
         interpolate (string_of (property (s ! a) ''application''))"
    and "template (property (s ! a) ''environment'') =
         interpolate (string_of (property (s ! a) ''environment''))"
  using assms by (simp_all add: well_typed_def template_string_of)

lemma well_typed_tokens:
  assumes "well_typed s a" and "property (s ! a) ''tokens'' = Ref t"
  shows "t < length s"
    and "template (property (s ! t) ''accessToken'') =
         interpolate (string_of (property (s ! t) ''accessToken''))"
  using assms by (simp_all add: well_typed_def template_string_of)

lemma well_typed_credentials:
  assumes "well_typed s a" and "property (s ! a) ''credentials'' = Ref c"
  shows "c < length s"
    and "template (property (s ! c) ''key'') =
         interpolate (string_of (property (s ! c) ''key''))"
    and "template (property (s ! c) ''secret'') =
         interpolate (string_of (property (s ! c) ''secret''))"
  using assms by (simp_all add: well_typed_def template_string_of)

lemma property_simps:
  "property ((p, v) # ob) q = (if p = q then v else property ob q)"
  "property [] q = Undefined"
  by (simp_all add: property_def)

lemma refines_getApplication:
  assumes "well_typed s a"
  shows "result_at (getApplication_store (Ref a) s) = getApplication_request (IOptions_at s a)"
proof (cases "property (s ! a) ''tokens''")
  case Undefined
  with assms well_typed_strings(1) [OF assms] show ?thesis
    by (simp add: getApplication_store_def getRestifyOptions_store_no_tokens js_bind_def
        result_at_def getApplication_request_def getRestifyOptions_def IOptions_at_def)
next
  case (Str x)
  with assms show ?thesis
    by (simp add: well_typed_def)
next
  case (Ref t)
  with assms well_typed_strings [OF assms] well_typed_tokens [OF assms Ref] show ?thesis
    by (simp add: getApplication_store_def getRestifyOptions_store_bearer store_defs
        result_at_def request_at_def ClientOptions_at_def nth_append property_simps
        getApplication_request_def getRestifyOptions_def IOptions_at_def Tokens_at_def
        getApplication_path_def)
qed

lemma refines_getConfigObject:
  assumes "well_typed s a"
  shows "result_at (getConfigObject_store (Ref a) objectId s) =
    getConfigObject_request (IOptions_at s a) objectId"
proof (cases "property (s ! a) ''tokens''")
  case Undefined
  with assms well_typed_strings(1) [OF assms] show ?thesis
    by (simp add: getConfigObject_store_def getRestifyOptions_store_no_tokens js_bind_def
        result_at_def getConfigObject_request_def getRestifyOptions_def IOptions_at_def)
next
  case (Str x)
  with assms show ?thesis
    by (simp add: well_typed_def)
next
  case (Ref t)
  with assms well_typed_strings [OF assms] well_typed_tokens [OF assms Ref] show ?thesis
    by (simp add: getConfigObject_store_def getRestifyOptions_store_bearer store_defs
        result_at_def request_at_def ClientOptions_at_def nth_append property_simps
        getConfigObject_request_def getRestifyOptions_def IOptions_at_def Tokens_at_def
        getConfigObject_path_def)
qed

lemma refines_putConfigObject:
  assumes "well_typed s a"
  shows "result_at (putConfigObject_store (Ref a) objectId body s) =
    putConfigObject_request (IOptions_at s a) objectId (any_of body)"
proof (cases "property (s ! a) ''tokens''")
  case Undefined
  with assms well_typed_strings(1) [OF assms] show ?thesis
    by (simp add: putConfigObject_store_def getRestifyOptions_store_no_tokens js_bind_def
        result_at_def putConfigObject_request_def getRestifyOptions_def IOptions_at_def)
next
  case (Str x)
  with assms show ?thesis
    by (simp add: well_typed_def)
next
  case (Ref t)
  with assms well_typed_strings [OF assms] well_typed_tokens [OF assms Ref] show ?thesis
    by (cases body)
      (simp_all add: putConfigObject_store_def getRestifyOptions_store_bearer store_defs
        result_at_def request_at_def ClientOptions_at_def nth_append property_simps
        putConfigObject_request_def getRestifyOptions_def IOptions_at_def Tokens_at_def
        putConfigObject_path_def)
qed

lemma refines_getAccessTokenFromRefreshToken:
  assumes "well_typed s a"
  shows "result_at (getAccessTokenFromRefreshToken_store (Ref a) s) =
    getAccessTokenFromRefreshToken_request (IOptions_at s a)"
proof (cases "property (s ! a) ''tokens''")
  case Undefined
  with assms well_typed_strings(1) [OF assms] show ?thesis
    by (simp add: getAccessTokenFromRefreshToken_store_def getRestifyOptions_store_no_tokens
        js_bind_def result_at_def getAccessTokenFromRefreshToken_request_def
        getRestifyOptions_def IOptions_at_def)
next
  case (Str x)
  with assms show ?thesis
    by (simp add: well_typed_def)
next
  case (Ref t)
  with assms well_typed_strings [OF assms] well_typed_tokens [OF assms Ref] show ?thesis
    by (simp add: getAccessTokenFromRefreshToken_store_def getRestifyOptions_store_bearer
        store_defs result_at_def request_at_def ClientOptions_at_def TokenRequest_at_def
        nth_append property_simps getAccessTokenFromRefreshToken_request_def
        getRestifyOptions_def IOptions_at_def Tokens_at_def new_TokenRequest_def)
qed

lemma refines_getAccessTokenFromClientCredentials:
  assumes "well_typed s a"
  shows "result_at (getAccessTokenFromClientCredentials_store (Ref a) s) =
    getAccessTokenFromClientCredentials_request (IOptions_at s a)"
proof (cases "property (s ! a) ''credentials''")
  case Undefined
  with assms well_typed_strings(1) [OF assms] show ?thesis
    by (simp add: getAccessTokenFromClientCredentials_store_def
        getRestifyOptions_store_no_credentials js_bind_def result_at_def
        getAccessTokenFromClientCredentials_request_def getRestifyOptions_def IOptions_at_def)
next
  case (Str x)
  with assms show ?thesis
    by (simp add: well_typed_def)
next
  case (Ref c)
  with assms well_typed_strings [OF assms] well_typed_credentials [OF assms Ref] show ?thesis
    by (simp add: getAccessTokenFromClientCredentials_store_def getRestifyOptions_store_basic
        store_defs result_at_def request_at_def ClientOptions_at_def TokenRequest_at_def
        nth_append property_simps getAccessTokenFromClientCredentials_request_def
        getRestifyOptions_def IOptions_at_def Credentials_at_def new_TokenRequest_def)
qed

end
